theory Spec2Isabelle
  imports Main "HOL-Library.Word"
begin

section \<open>Machine integers, time and durations\<close>

text \<open>
  Go's \<^verbatim>\<open>uint64\<close> and \<^verbatim>\<open>int64\<close> are both 64-bit words. Arithmetic wraps modulo
  \<open>2 ^ 64\<close>; the conversion \<^verbatim>\<open>int64(x)\<close> of a \<^verbatim>\<open>uint64\<close> keeps the bits, so it is
  the identity on words. A signed value is read with \<open>sint\<close> and compared with
  \<open><s\<close> and \<open>\<le>s\<close>; an unsigned one is read with \<open>uint\<close> and compared with
  \<open><\<close> and \<open>\<le>\<close>.
\<close>

type_synonym uint64 = "64 word"
type_synonym int64 = "64 word"

text \<open>
  \<^verbatim>\<open>time.Duration\<close> is an \<^verbatim>\<open>int64\<close> count of nanoseconds. A \<^verbatim>\<open>time.Time\<close> is an
  instant; it is modelled by its (unbounded) nanosecond count. \<^verbatim>\<open>Time.Sub\<close> of the Go
  standard library returns the difference of two instants, saturated to the largest
  and smallest \<^verbatim>\<open>Duration\<close> when the difference does not fit.
\<close>

type_synonym Duration = int64
type_synonym Time = int

definition maxDuration :: int where
  "maxDuration = 2 ^ 63 - 1"

definition minDuration :: int where
  "minDuration = - (2 ^ 63)"

definition Sub :: "Time \<Rightarrow> Time \<Rightarrow> Duration" where
  "Sub t u =
     (if maxDuration < t - u then word_of_int maxDuration
      else if t - u < minDuration then word_of_int minDuration
      else word_of_int (t - u))"

section \<open>Data model\<close>

text \<open>
  Modelled from the spec: the type \<^verbatim>\<open>Height\<close> of 02-client/types and its methods
  \<^verbatim>\<open>GetEpochNumber\<close>, \<^verbatim>\<open>GetEpochHeight\<close>, \<^verbatim>\<open>IsZero\<close> and \<^verbatim>\<open>LTE\<close> are not in
  misbehaviour_handle.go. A height is the pair (version number, version height) of two
  \<^verbatim>\<open>uint64\<close>; heights are compared by version number first and by version height
  within one version; the zero height stands for "no height".
\<close>

record Height =
  VersionNumber :: uint64
  VersionHeight :: uint64

definition GetEpochNumber :: "Height \<Rightarrow> uint64" where
  "GetEpochNumber h = VersionNumber h"

definition GetEpochHeight :: "Height \<Rightarrow> uint64" where
  "GetEpochHeight h = VersionHeight h"

definition IsZero :: "Height \<Rightarrow> bool" where
  "IsZero h \<longleftrightarrow> VersionNumber h = 0 \<and> VersionHeight h = 0"

definition LTE :: "Height \<Rightarrow> Height \<Rightarrow> bool" where
  "LTE h other \<longleftrightarrow>
     (if VersionNumber h \<noteq> VersionNumber other
      then VersionNumber h < VersionNumber other
      else VersionHeight h \<le> VersionHeight other)"

record Fraction =
  Numerator :: uint64
  Denominator :: uint64

text \<open>
  Modelled from the spec: the struct \<^verbatim>\<open>ClientState\<close> is declared outside
  misbehaviour_handle.go. Its fields are those of the spec's data model; the record is
  extensible, and every definition and theorem below is stated for an arbitrary
  extension, which stands for the remaining configuration of the client.
  \<^verbatim>\<open>FrozenHeight\<close> is a plain \<^verbatim>\<open>Height\<close> (line 110 assigns one to it); the client
  is frozen when it is not the zero height.
\<close>

record ClientState =
  ChainId :: string
  TrustLevel :: Fraction
  TrustingPeriod :: Duration
  UnbondingPeriod :: Duration
  MaxClockDrift :: Duration
  FrozenHeight :: Height
  LatestHeight :: Height

definition IsFrozen :: "'a ClientState_scheme \<Rightarrow> bool" where
  "IsFrozen cs \<longleftrightarrow> \<not> IsZero (FrozenHeight cs)"

definition GetChainID :: "'a ClientState_scheme \<Rightarrow> string" where
  "GetChainID cs = ChainId cs"

text \<open>
  Modelled from the spec: \<^verbatim>\<open>ConsensusState\<close>, \<^verbatim>\<open>Header\<close> and \<^verbatim>\<open>Misbehaviour\<close> are
  declared outside misbehaviour_handle.go. A consensus state records a timestamp, a
  commitment root and the hash of the next validator set. A header claims a height and
  a timestamp and carries a commit, the validator set of the commit, a trusted height
  and the validator set at the trusted height; \<open>'v\<close> and \<open>'c\<close> are the wire forms of
  validator sets and commits. A misbehaviour is a pair of headers; its height is the
  height its headers claim (the two are equal by the structural validation done before
  this code), and its time is the minimum of the two headers' timestamps. The two
  headers are values: the structural validation has rejected a misbehaviour with a nil
  header before this code runs.
\<close>

type_synonym bytes = "8 word list"

record ConsensusState =
  Timestamp :: Time
  Root :: bytes
  NextValidatorsHash :: bytes

record ('v, 'c) Header =
  HeaderHeight :: Height
  HeaderTime :: Time
  Commit :: 'c
  ValidatorSet :: 'v
  TrustedHeight :: Height
  TrustedValidators :: 'v

record ('v, 'c) Misbehaviour =
  Header1 :: "('v, 'c) Header"
  Header2 :: "('v, 'c) Header"

definition GetHeight :: "('v, 'c) Misbehaviour \<Rightarrow> Height" where
  "GetHeight misbehaviour = HeaderHeight (Header1 misbehaviour)"

definition GetTime :: "('v, 'c) Misbehaviour \<Rightarrow> Time" where
  "GetTime misbehaviour =
     min (HeaderTime (Header1 misbehaviour)) (HeaderTime (Header2 misbehaviour))"

text \<open>
  The parameter \<^verbatim>\<open>misbehaviour\<close> has the interface type \<^verbatim>\<open>exported.Misbehaviour\<close>:
  its dynamic type is either this client's \<^verbatim>\<open>*Misbehaviour\<close> or that of another
  light client, of which only the height is visible through the interface.
\<close>

datatype ('v, 'c) exported_Misbehaviour =
    TendermintMisbehaviour "('v, 'c) Misbehaviour"
  | OtherMisbehaviour Height

text \<open>
  The context supplies the block time and the consensus parameters; both the
  parameters and their \<^verbatim>\<open>Evidence\<close> part are pointers that may be nil.
\<close>

record EvidenceParams =
  MaxAgeNumBlocks :: int64
  MaxAgeDuration :: Duration

record ConsensusParams =
  Evidence :: "EvidenceParams option"

record Context =
  BlockTime :: Time
  ConsensusParams :: "ConsensusParams option"

section \<open>Errors\<close>

text \<open>
  An error is one of the registered root errors, an error produced by a collaborator
  outside this file, or an error wrapped with a message by \<^verbatim>\<open>sdkerrors.Wrap\<close> or
  \<^verbatim>\<open>sdkerrors.Wrapf\<close>. A message is named by the place that writes it:
  \<^item> \<open>MsgExpectedType\<close>: "expected type %T, got %T" (line 30);
  \<^item> \<open>MsgAlreadyFrozen\<close>: "client is already frozen at earlier height %s than
    misbehaviour height %s" (line 36);
  \<^item> \<open>MsgNoConsensusState1\<close>, \<open>MsgNoConsensusState2\<close>: "could not get trusted consensus
    state from clientStore for Header1 (Header2) at TrustedHeight: %s" (lines 45, 51);
  \<^item> \<open>MsgStale\<close>: "age duration (%s) and age blocks (%d) are greater than max consensus
    params for duration (%s) and block (%d)" (line 89);
  \<^item> \<open>MsgHeader1Failed\<close>, \<open>MsgHeader2Failed\<close>: "verifying Header1 (Header2) in
    Misbehaviour failed" (lines 102, 107);
  \<^item> \<open>MsgNotValidatorSet\<close>: "trusted validator set is not tendermint validator set
    type" (line 122);
  \<^item> \<open>MsgNotCommit\<close>: "commit is not tendermint commit type" (line 127);
  \<^item> \<open>MsgUnbondingExpired\<close>: "current timestamp minus the latest consensus state
    timestamp is greater than or equal to the unbonding period (%d >= %d)" (line 139);
  \<^item> \<open>MsgTooMuchChange\<close>: "validator set in header has too much change from trusted
    validator set: %v" (line 156).
\<close>

datatype wrap_msg =
    MsgExpectedType
  | MsgAlreadyFrozen
  | MsgNoConsensusState1
  | MsgNoConsensusState2
  | MsgStale
  | MsgHeader1Failed
  | MsgHeader2Failed
  | MsgNotValidatorSet
  | MsgNotCommit
  | MsgUnbondingExpired
  | MsgTooMuchChange

datatype error =
    ErrInvalidClientType
  | ErrInvalidMisbehaviour
  | ErrConsensusStateNotFound
  | ErrUnbondingPeriodExpired
  | ErrCollaborator string
  | Wrapf error wrap_msg

section \<open>Collaborators\<close>

text \<open>
  Modelled from the spec: \<^verbatim>\<open>GetConsensusState\<close> is declared outside
  misbehaviour_handle.go. The store maps a height to the consensus state kept for it,
  if any; the lookup of an absent height fails.
\<close>

type_synonym KVStore = "Height \<rightharpoonup> ConsensusState"

definition GetConsensusState :: "KVStore \<Rightarrow> Height \<Rightarrow> error + ConsensusState" where
  "GetConsensusState clientStore height =
     (case clientStore height of
        None \<Rightarrow> Inl ErrConsensusStateNotFound
      | Some consState \<Rightarrow> Inr consState)"

text \<open>
  The functions that decode and verify validator sets and commits, that compare a
  header with its trusted consensus state, and that read and rewrite the version number
  of a chain identifier are not in misbehaviour_handle.go. They are parameters of the
  model: \<open>'tv\<close> and \<open>'tc\<close> are the decoded validator sets and commits.
  \<^verbatim>\<open>SetEpochNumber\<close> returns a pair, as in Go: the new chain identifier and an error
  that may be nil. \<^verbatim>\<open>VerifyCommitLightTrusting\<close> takes the client's trust level; the
  field-wise conversion \<^verbatim>\<open>ToTendermint\<close> is part of it.
\<close>

record ('v, 'c, 'tv, 'tc) collaborators =
  ValidatorSetFromProto :: "'v \<Rightarrow> error + 'tv"
  CommitFromProto :: "'c \<Rightarrow> error + 'tc"
  checkTrustedHeader :: "('v, 'c) Header \<Rightarrow> ConsensusState \<Rightarrow> error option"
  IsEpochFormat :: "string \<Rightarrow> bool"
  SetEpochNumber :: "string \<Rightarrow> uint64 \<Rightarrow> string \<times> error option"
  VerifyCommitLightTrusting :: "'tv \<Rightarrow> string \<Rightarrow> 'tc \<Rightarrow> Fraction \<Rightarrow> error option"

section \<open>The per-header check\<close>

text \<open>
  \<^verbatim>\<open>checkMisbehaviourHeader\<close> (lines 116 to 159). The result is Go's \<^verbatim>\<open>error\<close>:
  \<open>None\<close> is nil. Line 148 assigns the first result of \<^verbatim>\<open>SetEpochNumber\<close> to
  \<^verbatim>\<open>chainID\<close> and discards the second with the blank identifier. Line 156 wraps
  \<^verbatim>\<open>ErrInvalidMisbehaviour\<close>; the error of the commit verification only appears in the
  message.
\<close>

definition checkMisbehaviourHeader ::
  "('v, 'c, 'tv, 'tc) collaborators \<Rightarrow> 'a ClientState_scheme \<Rightarrow> ConsensusState \<Rightarrow>
   ('v, 'c) Header \<Rightarrow> Time \<Rightarrow> error option" where
  "checkMisbehaviourHeader ext clientState consState header currentTimestamp =
     (case ValidatorSetFromProto ext (TrustedValidators header) of
        Inl err \<Rightarrow> Some (Wrapf err MsgNotValidatorSet)
      | Inr tmTrustedValset \<Rightarrow>
     (case CommitFromProto ext (Commit header) of
        Inl err \<Rightarrow> Some (Wrapf err MsgNotCommit)
      | Inr tmCommit \<Rightarrow>
     (case checkTrustedHeader ext header consState of
        Some err \<Rightarrow> Some err
      | None \<Rightarrow>
     if UnbondingPeriod clientState \<le>s Sub currentTimestamp (Timestamp consState)
     then Some (Wrapf ErrUnbondingPeriodExpired MsgUnbondingExpired)
     else
       let chainID = GetChainID clientState;
           chainID = (if IsEpochFormat ext chainID
                      then fst (SetEpochNumber ext chainID
                                  (GetEpochNumber (HeaderHeight header)))
                      else chainID)
       in (case VerifyCommitLightTrusting ext tmTrustedValset chainID tmCommit
                  (TrustLevel clientState) of
             Some err \<Rightarrow> Some (Wrapf ErrInvalidMisbehaviour MsgTooMuchChange)
           | None \<Rightarrow> None))))"

text \<open>
  Modelled from the spec: \<^verbatim>\<open>IsEpochFormat\<close> and \<^verbatim>\<open>SetEpochNumber\<close> are declared in
  02-client/types, not in misbehaviour_handle.go. The spec (section 4.4, step 4)
  substitutes the version number of the header into the chain identifier "if the
  identifier is version-templated" and names no failure of that substitution: on an
  identifier in version format \<^verbatim>\<open>SetEpochNumber\<close> returns a nil error.
\<close>

definition epochContract :: "('v, 'c, 'tv, 'tc) collaborators \<Rightarrow> bool" where
  "epochContract ext \<longleftrightarrow>
     (\<forall>chainID epoch. IsEpochFormat ext chainID \<longrightarrow>
        snd (SetEpochNumber ext chainID epoch) = None)"

text \<open>
  The per-header check as the spec words its error handling (section 7: every failure
  is returned to the immediate caller, none is silently swallowed): the steps of
  \<^verbatim>\<open>checkMisbehaviourHeader\<close>, except that an error of the substitution is returned
  to the caller, and the verification of the commit runs only after a substitution
  that succeeded, with the identifier it returned, or on an identifier that is not in
  version format, unchanged.
\<close>

definition checkMisbehaviourHeader_propagating ::
  "('v, 'c, 'tv, 'tc) collaborators \<Rightarrow> 'a ClientState_scheme \<Rightarrow> ConsensusState \<Rightarrow>
   ('v, 'c) Header \<Rightarrow> Time \<Rightarrow> error option" where
  "checkMisbehaviourHeader_propagating ext clientState consState header currentTimestamp =
     (case ValidatorSetFromProto ext (TrustedValidators header) of
        Inl err \<Rightarrow> Some (Wrapf err MsgNotValidatorSet)
      | Inr tmTrustedValset \<Rightarrow>
     (case CommitFromProto ext (Commit header) of
        Inl err \<Rightarrow> Some (Wrapf err MsgNotCommit)
      | Inr tmCommit \<Rightarrow>
     (case checkTrustedHeader ext header consState of
        Some err \<Rightarrow> Some err
      | None \<Rightarrow>
     if UnbondingPeriod clientState \<le>s Sub currentTimestamp (Timestamp consState)
     then Some (Wrapf ErrUnbondingPeriodExpired MsgUnbondingExpired)
     else
       (case (if IsEpochFormat ext (GetChainID clientState)
              then SetEpochNumber ext (GetChainID clientState)
                     (GetEpochNumber (HeaderHeight header))
              else (GetChainID clientState, None)) of
          (chainID, Some err) \<Rightarrow> Some err
        | (chainID, None) \<Rightarrow>
            (case VerifyCommitLightTrusting ext tmTrustedValset chainID tmCommit
                    (TrustLevel clientState) of
               Some err \<Rightarrow> Some (Wrapf ErrInvalidMisbehaviour MsgTooMuchChange)
             | None \<Rightarrow> None)))))"

section \<open>The misbehaviour check\<close>

text \<open>The age of the misbehaviour (lines 54 to 70).\<close>

definition ageDuration :: "Context \<Rightarrow> ('v, 'c) Misbehaviour \<Rightarrow> Duration" where
  "ageDuration ctx tmMisbehaviour = Sub (BlockTime ctx) (GetTime tmMisbehaviour)"

definition ageBlocks :: "'a ClientState_scheme \<Rightarrow> ('v, 'c) Misbehaviour \<Rightarrow> int64" where
  "ageBlocks cs tmMisbehaviour =
     (if GetEpochNumber (GetHeight tmMisbehaviour) = VersionNumber (LatestHeight cs)
      then VersionHeight (LatestHeight cs) - GetEpochHeight (GetHeight tmMisbehaviour)
      else 0)"

text \<open>The condition of lines 84 to 87.\<close>

definition tooOld :: "ConsensusParams option \<Rightarrow> Duration \<Rightarrow> int64 \<Rightarrow> bool" where
  "tooOld consensusParams ageD ageB =
     (case consensusParams of
        None \<Rightarrow> False
      | Some params \<Rightarrow>
          (case Evidence params of
             None \<Rightarrow> False
           | Some evidence \<Rightarrow>
               MaxAgeDuration evidence <s ageD \<or> MaxAgeNumBlocks evidence <s ageB))"

text \<open>
  \<^verbatim>\<open>CheckMisbehaviourAndUpdateState\<close> (lines 22 to 112). The result is the pair that
  the Go function returns: the client state (\<open>None\<close> is nil) and the error (\<open>None\<close> is
  nil). The receiver \<^verbatim>\<open>cs\<close> is passed by value: line 110 assigns to the callee's copy,
  which is what the function returns.
\<close>

definition CheckMisbehaviourAndUpdateState ::
  "('v, 'c, 'tv, 'tc) collaborators \<Rightarrow> 'a ClientState_scheme \<Rightarrow> Context \<Rightarrow> KVStore \<Rightarrow>
   ('v, 'c) exported_Misbehaviour \<Rightarrow> 'a ClientState_scheme option \<times> error option" where
  "CheckMisbehaviourAndUpdateState ext cs ctx clientStore misbehaviour =
     (case misbehaviour of
        OtherMisbehaviour h \<Rightarrow> (None, Some (Wrapf ErrInvalidClientType MsgExpectedType))
      | TendermintMisbehaviour tmMisbehaviour \<Rightarrow>
     if IsFrozen cs \<and> LTE (FrozenHeight cs) (GetHeight tmMisbehaviour)
     then (None, Some (Wrapf ErrInvalidMisbehaviour MsgAlreadyFrozen))
     else
     (case GetConsensusState clientStore (TrustedHeight (Header1 tmMisbehaviour)) of
        Inl err \<Rightarrow> (None, Some (Wrapf err MsgNoConsensusState1))
      | Inr tmConsensusState1 \<Rightarrow>
     (case GetConsensusState clientStore (TrustedHeight (Header2 tmMisbehaviour)) of
        Inl err \<Rightarrow> (None, Some (Wrapf err MsgNoConsensusState2))
      | Inr tmConsensusState2 \<Rightarrow>
     if tooOld (ConsensusParams ctx) (ageDuration ctx tmMisbehaviour)
          (ageBlocks cs tmMisbehaviour)
     then (None, Some (Wrapf ErrInvalidMisbehaviour MsgStale))
     else
     (case checkMisbehaviourHeader ext cs tmConsensusState1 (Header1 tmMisbehaviour)
             (BlockTime ctx) of
        Some err \<Rightarrow> (None, Some (Wrapf err MsgHeader1Failed))
      | None \<Rightarrow>
     (case checkMisbehaviourHeader ext cs tmConsensusState2 (Header2 tmMisbehaviour)
             (BlockTime ctx) of
        Some err \<Rightarrow> (None, Some (Wrapf err MsgHeader2Failed))
      | None \<Rightarrow> (Some (cs\<lparr>FrozenHeight := GetHeight tmMisbehaviour\<rparr>), None))))))"

text \<open>
  Lines 99 to 111 on their own: what the function does once the staleness check has let
  the misbehaviour through. The theorems use it to say that the function goes on to
  the verification of the two headers.
\<close>

definition verifyHeadersAndFreeze ::
  "('v, 'c, 'tv, 'tc) collaborators \<Rightarrow> 'a ClientState_scheme \<Rightarrow> Context \<Rightarrow>
   ConsensusState \<Rightarrow> ConsensusState \<Rightarrow> ('v, 'c) Misbehaviour \<Rightarrow>
   'a ClientState_scheme option \<times> error option" where
  "verifyHeadersAndFreeze ext cs ctx tmConsensusState1 tmConsensusState2 tmMisbehaviour =
     (case checkMisbehaviourHeader ext cs tmConsensusState1 (Header1 tmMisbehaviour)
             (BlockTime ctx) of
        Some err \<Rightarrow> (None, Some (Wrapf err MsgHeader1Failed))
      | None \<Rightarrow>
     (case checkMisbehaviourHeader ext cs tmConsensusState2 (Header2 tmMisbehaviour)
             (BlockTime ctx) of
        Some err \<Rightarrow> (None, Some (Wrapf err MsgHeader2Failed))
      | None \<Rightarrow> (Some (cs\<lparr>FrozenHeight := GetHeight tmMisbehaviour\<rparr>), None)))"

section \<open>Sequences of checks\<close>

text \<open>
  Modelled from the spec: the message handler that calls the check is outside
  misbehaviour_handle.go. It persists the returned client state if no error occurred
  and keeps the old one otherwise (section 2 of the spec). A call is the context, the
  store and the misbehaviour submitted.
\<close>

definition submit ::
  "('v, 'c, 'tv, 'tc) collaborators \<Rightarrow> 'a ClientState_scheme \<Rightarrow>
   Context \<times> KVStore \<times> ('v, 'c) exported_Misbehaviour \<Rightarrow> 'a ClientState_scheme" where
  "submit ext cs call =
     (case call of (ctx, clientStore, misbehaviour) \<Rightarrow>
        (case CheckMisbehaviourAndUpdateState ext cs ctx clientStore misbehaviour of
           (Some cs', None) \<Rightarrow> cs'
         | _ \<Rightarrow> cs))"

definition submitAll ::
  "('v, 'c, 'tv, 'tc) collaborators \<Rightarrow> 'a ClientState_scheme \<Rightarrow>
   (Context \<times> KVStore \<times> ('v, 'c) exported_Misbehaviour) list \<Rightarrow> 'a ClientState_scheme" where
  "submitAll ext cs calls = foldl (submit ext) cs calls"

definition nonzeroHeight :: "('v, 'c) exported_Misbehaviour \<Rightarrow> bool" where
  "nonzeroHeight misbehaviour =
     (case misbehaviour of
        TendermintMisbehaviour m \<Rightarrow> \<not> IsZero (GetHeight m)
      | OtherMisbehaviour h \<Rightarrow> True)"

section \<open>A concrete scenario\<close>

text \<open>
  The scenario of the spec's section 8: a client at height (1, 100) with trust level
  2/3; two headers at height (1, 95) that trust height (1, 90), each signed by 70 of
  the 100 units of trusted voting power; the block time is two hours after the
  headers' time and the evidence window is 48 hours and 100000 blocks. Validator sets
  and commits are reduced to their voting power, and the commit verification accepts
  when the signed power reaches the trust level.
\<close>

definition example_ext :: "(nat, nat, nat, nat) collaborators" where
  "example_ext =
     \<lparr>ValidatorSetFromProto = Inr,
      CommitFromProto = Inr,
      checkTrustedHeader = (\<lambda>header consState. None),
      IsEpochFormat = (\<lambda>chainID. False),
      SetEpochNumber = (\<lambda>chainID epoch. (chainID, None)),
      VerifyCommitLightTrusting = (\<lambda>power chainID signed level.
        if unat (Numerator level) * power \<le> unat (Denominator level) * signed
        then None else Some (ErrCollaborator ''insufficient trusted power''))\<rparr>"

definition example_client :: ClientState where
  "example_client =
     \<lparr>ChainId = ''testchain'',
      TrustLevel = \<lparr>Numerator = 2, Denominator = 3\<rparr>,
      TrustingPeriod = 1209600000000000,
      UnbondingPeriod = 1814400000000000,
      MaxClockDrift = 10000000000,
      FrozenHeight = \<lparr>VersionNumber = 0, VersionHeight = 0\<rparr>,
      LatestHeight = \<lparr>VersionNumber = 1, VersionHeight = 100\<rparr>\<rparr>"

definition example_header :: "(nat, nat) Header" where
  "example_header =
     \<lparr>HeaderHeight = \<lparr>VersionNumber = 1, VersionHeight = 95\<rparr>,
      HeaderTime = 0,
      Commit = 70,
      ValidatorSet = 100,
      TrustedHeight = \<lparr>VersionNumber = 1, VersionHeight = 90\<rparr>,
      TrustedValidators = 100\<rparr>"

definition example_misbehaviour :: "(nat, nat) Misbehaviour" where
  "example_misbehaviour = \<lparr>Header1 = example_header, Header2 = example_header\<rparr>"

definition example_consensus :: ConsensusState where
  "example_consensus = \<lparr>Timestamp = 0, Root = [], NextValidatorsHash = []\<rparr>"

definition example_store :: KVStore where
  "example_store = [\<lparr>VersionNumber = 1, VersionHeight = 90\<rparr> \<mapsto> example_consensus]"

definition example_evidence :: EvidenceParams where
  "example_evidence = \<lparr>MaxAgeNumBlocks = 100000, MaxAgeDuration = 172800000000000\<rparr>"

definition example_ctx :: Context where
  "example_ctx =
     \<lparr>BlockTime = 7200000000000,
      ConsensusParams = Some \<lparr>Evidence = Some example_evidence\<rparr>\<rparr>"

text \<open>
  Variations of the scenario: a client frozen at (1, 90), before the misbehaviour, and
  one frozen at (1, 99), after it; a block time more than 48 hours after the headers'
  time, with and without consensus parameters; a misbehaviour at height (1, 101),
  above the client's latest height, and one at height (2, 5), of the next version of
  the chain.
\<close>

definition frozen_before :: ClientState where
  "frozen_before = example_client\<lparr>FrozenHeight := \<lparr>VersionNumber = 1, VersionHeight = 90\<rparr>\<rparr>"

definition frozen_after :: ClientState where
  "frozen_after = example_client\<lparr>FrozenHeight := \<lparr>VersionNumber = 1, VersionHeight = 99\<rparr>\<rparr>"

definition late_ctx :: Context where
  "late_ctx = example_ctx\<lparr>BlockTime := 200000000000000\<rparr>"

definition late_ctx_no_params :: Context where
  "late_ctx_no_params = \<lparr>BlockTime = 200000000000000, ConsensusParams = None\<rparr>"

definition ahead_misbehaviour :: "(nat, nat) Misbehaviour" where
  "ahead_misbehaviour =
     \<lparr>Header1 = example_header\<lparr>HeaderHeight := \<lparr>VersionNumber = 1, VersionHeight = 101\<rparr>\<rparr>,
      Header2 = example_header\<lparr>HeaderHeight := \<lparr>VersionNumber = 1, VersionHeight = 101\<rparr>\<rparr>\<rparr>"

definition upgraded_misbehaviour :: "(nat, nat) Misbehaviour" where
  "upgraded_misbehaviour =
     \<lparr>Header1 = example_header\<lparr>HeaderHeight := \<lparr>VersionNumber = 2, VersionHeight = 5\<rparr>\<rparr>,
      Header2 = example_header\<lparr>HeaderHeight := \<lparr>VersionNumber = 2, VersionHeight = 5\<rparr>\<rparr>\<rparr>"

text \<open>
  A chain whose identifiers are in version format: \<open>testchain-\<close> followed by the
  version number in decimal. The substitution replaces the number; on any other
  identifier it fails. The commit verification accepts a commit only for the
  identifier \<open>testchain-2\<close>, that of the second version of the chain.
\<close>

fun decimal :: "nat \<Rightarrow> string" where
  "decimal n =
     (if n < 10 then [''0123456789'' ! n]
      else decimal (n div 10) @ [''0123456789'' ! (n mod 10)])"

definition versioned :: "string \<Rightarrow> bool" where
  "versioned chainID \<longleftrightarrow> 10 < length chainID \<and> take 10 chainID = ''testchain-''"

definition versioned_ext :: "(nat, nat, nat, nat) collaborators" where
  "versioned_ext =
     example_ext
       \<lparr>IsEpochFormat := versioned,
        SetEpochNumber := (\<lambda>chainID epoch.
          if versioned chainID then (''testchain-'' @ decimal (unat epoch), None)
          else ([], Some (ErrCollaborator ''chainID is not in epoch format''))),
        VerifyCommitLightTrusting := (\<lambda>power chainID signed level.
          if chainID = ''testchain-2'' \<and>
             unat (Numerator level) * power \<le> unat (Denominator level) * signed
          then None else Some (ErrCollaborator ''invalid commit''))\<rparr>"

definition versioned_client :: ClientState where
  "versioned_client = example_client\<lparr>ChainId := ''testchain-1''\<rparr>"

definition upgraded_header :: "(nat, nat) Header" where
  "upgraded_header = example_header\<lparr>HeaderHeight := \<lparr>VersionNumber = 2, VersionHeight = 5\<rparr>\<rparr>"

section \<open>Auxiliary facts\<close>

lemmas example_defs = example_ext_def example_client_def example_header_def
  example_misbehaviour_def example_consensus_def example_store_def example_evidence_def
  example_ctx_def frozen_before_def frozen_after_def late_ctx_def late_ctx_no_params_def
  ahead_misbehaviour_def upgraded_misbehaviour_def versioned_ext_def versioned_client_def
  upgraded_header_def

lemmas height_defs = GetHeight_def GetTime_def GetEpochNumber_def GetEpochHeight_def
  IsFrozen_def IsZero_def LTE_def

lemmas age_defs = tooOld_def ageDuration_def ageBlocks_def Sub_def maxDuration_def
  minDuration_def

lemma verify_not_stale:
  "verifyHeadersAndFreeze ext cs ctx c1 c2 m \<noteq> (r, Some (Wrapf e MsgStale))"
  by (simp add: verifyHeadersAndFreeze_def split: option.splits)

lemma check_past_guards:
  assumes "\<not> (IsFrozen cs \<and> LTE (FrozenHeight cs) (GetHeight m))"
    and "clientStore (TrustedHeight (Header1 m)) = Some c1"
    and "clientStore (TrustedHeight (Header2 m)) = Some c2"
  shows "CheckMisbehaviourAndUpdateState ext cs ctx clientStore (TendermintMisbehaviour m) =
     (if tooOld (ConsensusParams ctx) (ageDuration ctx m) (ageBlocks cs m)
      then (None, Some (Wrapf ErrInvalidMisbehaviour MsgStale))
      else verifyHeadersAndFreeze ext cs ctx c1 c2 m)"
  using assms
  by (auto simp add: CheckMisbehaviourAndUpdateState_def GetConsensusState_def
      verifyHeadersAndFreeze_def)

lemma check_cases:
  "(\<exists>e. CheckMisbehaviourAndUpdateState ext cs ctx clientStore mb = (None, Some e)) \<or>
   (\<exists>m. mb = TendermintMisbehaviour m \<and>
      \<not> (IsFrozen cs \<and> LTE (FrozenHeight cs) (GetHeight m)) \<and>
      CheckMisbehaviourAndUpdateState ext cs ctx clientStore mb =
        (Some (cs\<lparr>FrozenHeight := GetHeight m\<rparr>), None))"
  by (simp add: CheckMisbehaviourAndUpdateState_def
      split: exported_Misbehaviour.splits sum.splits option.splits)

text \<open>The scenario, evaluated.\<close>

lemma example_header_ok:
  "checkMisbehaviourHeader example_ext (example_client\<lparr>FrozenHeight := h\<rparr>)
     example_consensus (example_header\<lparr>HeaderHeight := h'\<rparr>) 7200000000000 = None"
  "checkMisbehaviourHeader example_ext (example_client\<lparr>FrozenHeight := h\<rparr>)
     example_consensus (example_header\<lparr>HeaderHeight := h'\<rparr>) 200000000000000 = None"
  by (simp_all add: checkMisbehaviourHeader_def example_defs Sub_def maxDuration_def
      minDuration_def GetChainID_def)

lemma example_verified:
  "verifyHeadersAndFreeze example_ext example_client example_ctx example_consensus
     example_consensus example_misbehaviour =
   (Some (example_client\<lparr>FrozenHeight := \<lparr>VersionNumber = 1, VersionHeight = 95\<rparr>\<rparr>), None)"
  "verifyHeadersAndFreeze example_ext example_client late_ctx_no_params example_consensus
     example_consensus example_misbehaviour =
   (Some (example_client\<lparr>FrozenHeight := \<lparr>VersionNumber = 1, VersionHeight = 95\<rparr>\<rparr>), None)"
  "verifyHeadersAndFreeze example_ext frozen_after example_ctx example_consensus
     example_consensus example_misbehaviour =
   (Some (frozen_after\<lparr>FrozenHeight := \<lparr>VersionNumber = 1, VersionHeight = 95\<rparr>\<rparr>), None)"
  using example_header_ok [of "FrozenHeight example_client" "HeaderHeight example_header"]
    example_header_ok [of "\<lparr>VersionNumber = 1, VersionHeight = 99\<rparr>"
      "HeaderHeight example_header"]
  by (simp_all add: verifyHeadersAndFreeze_def example_defs GetHeight_def)

lemma example_guards:
  "\<not> (IsFrozen example_client \<and>
      LTE (FrozenHeight example_client) (GetHeight example_misbehaviour))"
  "\<not> (IsFrozen frozen_after \<and>
      LTE (FrozenHeight frozen_after) (GetHeight example_misbehaviour))"
  "example_store (TrustedHeight (Header1 example_misbehaviour)) = Some example_consensus"
  "example_store (TrustedHeight (Header2 example_misbehaviour)) = Some example_consensus"
  by (simp_all add: example_defs height_defs)

lemma example_success:
  "CheckMisbehaviourAndUpdateState example_ext example_client example_ctx example_store
     (TendermintMisbehaviour example_misbehaviour) =
   (Some (example_client\<lparr>FrozenHeight := \<lparr>VersionNumber = 1, VersionHeight = 95\<rparr>\<rparr>), None)"
  unfolding check_past_guards [OF example_guards(1,3,4)] example_verified
  by (simp add: example_defs height_defs age_defs)

lemma example_refreeze:
  "CheckMisbehaviourAndUpdateState example_ext frozen_after example_ctx example_store
     (TendermintMisbehaviour example_misbehaviour) =
   (Some (frozen_after\<lparr>FrozenHeight := \<lparr>VersionNumber = 1, VersionHeight = 95\<rparr>\<rparr>), None)"
  unfolding check_past_guards [OF example_guards(2,3,4)] example_verified
  by (simp add: example_defs height_defs age_defs)

lemma example_frozen_before:
  "IsFrozen frozen_before"
  "LTE (FrozenHeight frozen_before) (GetHeight example_misbehaviour)"
  by (simp_all add: example_defs height_defs)

lemma example_late:
  "CheckMisbehaviourAndUpdateState example_ext example_client late_ctx example_store
     (TendermintMisbehaviour example_misbehaviour) =
   (None, Some (Wrapf ErrInvalidMisbehaviour MsgStale))"
  unfolding check_past_guards [OF example_guards(1,3,4)]
  by (simp add: example_defs height_defs age_defs)

text \<open>Saturating subtraction of instants and signed subtraction of words.\<close>

lemma sint_word_of_int_64:
  "- (2 ^ 63) \<le> x \<Longrightarrow> x < 2 ^ 63 \<Longrightarrow> sint (word_of_int x :: 64 word) = x"
  by (simp add: sint_sbintrunc' signed_take_bit_int_eq_self)

lemma sint_Sub: "sint (Sub t u) = max minDuration (min maxDuration (t - u))"
proof -
  have "sint (word_of_int (t - u) :: 64 word) = t - u"
    if "\<not> maxDuration < t - u" and "\<not> t - u < minDuration"
    using that by (intro sint_word_of_int_64) (simp_all add: maxDuration_def minDuration_def)
  then show ?thesis
    unfolding Sub_def by (simp add: maxDuration_def minDuration_def)
qed

lemma Sub_ge:
  fixes p :: Duration
  assumes "sint p \<le> t - u"
  shows "p \<le>s Sub t u"
proof -
  have "sint p \<le> maxDuration" "minDuration \<le> sint p"
    using sint_lt [of p] sint_ge [of p] by (simp_all add: maxDuration_def minDuration_def)
  with assms show ?thesis
    by (simp add: word_sle_eq sint_Sub)
qed

lemma word_of_int_shift_64: "(word_of_int (x + 2 ^ 64) :: 64 word) = word_of_int x"
proof -
  have "(word_of_int (2 ^ 64) :: 64 word) = 0"
    using word_of_int_2p_len [where 'a = 64] by simp
  then show ?thesis
    by (simp only: of_int_add) simp
qed

lemma sint_minus_64:
  fixes a b :: "64 word"
  shows "sint (a - b) =
    (if uint a - uint b < - (2 ^ 63) then uint a - uint b + 2 ^ 64
     else if 2 ^ 63 \<le> uint a - uint b then uint a - uint b - 2 ^ 64
     else uint a - uint b)"
proof -
  define x where "x = uint a - uint b"
  have eq: "a - b = word_of_int x"
    by (simp add: x_def)
  have bounds: "- (2 ^ 64) < x" "x < 2 ^ 64"
  proof -
    have "0 \<le> uint a" "0 \<le> uint b" "uint a < 2 ^ 64" "uint b < 2 ^ 64"
      using uint_lt2p [of a] uint_lt2p [of b] by simp_all
    then show "- (2 ^ 64) < x" "x < 2 ^ 64"
      unfolding x_def by linarith+
  qed
  consider "x < - (2 ^ 63)" | "2 ^ 63 \<le> x" | "- (2 ^ 63) \<le> x" "x < 2 ^ 63"
    by linarith
  then have "sint (word_of_int x :: 64 word) =
    (if x < - (2 ^ 63) then x + 2 ^ 64 else if 2 ^ 63 \<le> x then x - 2 ^ 64 else x)"
  proof cases
    case 1
    have "sint (word_of_int (x + 2 ^ 64) :: 64 word) = x + 2 ^ 64"
      using 1 bounds by (intro sint_word_of_int_64) simp_all
    then have "sint (word_of_int x :: 64 word) = x + 2 ^ 64"
      unfolding word_of_int_shift_64 .
    with 1 show ?thesis by simp
  next
    case 2
    have small: "sint (word_of_int (x - 2 ^ 64) :: 64 word) = x - 2 ^ 64"
      using 2 bounds by (intro sint_word_of_int_64) simp_all
    have same: "(word_of_int (x - 2 ^ 64) :: 64 word) = word_of_int x"
      using word_of_int_shift_64 [of "x - 2 ^ 64"] by (simp only: diff_add_cancel)
    have "sint (word_of_int x :: 64 word) = x - 2 ^ 64"
      using small unfolding same .
    with 2 show ?thesis by simp
  next
    case 3
    then show ?thesis by (simp add: sint_word_of_int_64)
  qed
  then show ?thesis
    unfolding eq x_def .
qed

text \<open>The order of heights, and one call of the handler on a frozen client.\<close>

lemma LTE_refl: "LTE h h"
  by (simp add: LTE_def)

lemma LTE_trans: "LTE a b \<Longrightarrow> LTE b c \<Longrightarrow> LTE a c"
  by (auto simp add: LTE_def split: if_splits)

lemma LTE_total: "\<not> LTE a b \<Longrightarrow> LTE b a"
  by (auto simp add: LTE_def split: if_splits)

lemma submit_cases:
  assumes "IsFrozen cs"
  shows "submit ext cs (ctx, clientStore, mb) = cs \<or>
   (\<exists>m. mb = TendermintMisbehaviour m \<and> \<not> LTE (FrozenHeight cs) (GetHeight m) \<and>
      submit ext cs (ctx, clientStore, mb) = cs\<lparr>FrozenHeight := GetHeight m\<rparr>)"
  using check_cases [of ext cs ctx clientStore mb] assms
  by (auto simp add: submit_def)

lemma submit_frozen:
  assumes "IsFrozen cs" and "nonzeroHeight (snd (snd call))"
  shows "IsFrozen (submit ext cs call) \<and>
         LTE (FrozenHeight (submit ext cs call)) (FrozenHeight cs)"
proof -
  obtain ctx clientStore mb where call: "call = (ctx, clientStore, mb)"
    by (cases call) auto
  from submit_cases [OF assms(1), of ext ctx clientStore mb] show ?thesis
  proof
    assume "submit ext cs (ctx, clientStore, mb) = cs"
    with assms(1) show ?thesis by (simp add: call LTE_refl)
  next
    assume "\<exists>m. mb = TendermintMisbehaviour m \<and> \<not> LTE (FrozenHeight cs) (GetHeight m) \<and>
      submit ext cs (ctx, clientStore, mb) = cs\<lparr>FrozenHeight := GetHeight m\<rparr>"
    then obtain m where m: "mb = TendermintMisbehaviour m"
      "\<not> LTE (FrozenHeight cs) (GetHeight m)"
      "submit ext cs (ctx, clientStore, mb) = cs\<lparr>FrozenHeight := GetHeight m\<rparr>"
      by blast
    from assms(2) m(1) have "\<not> IsZero (GetHeight m)"
      by (simp add: call nonzeroHeight_def)
    with m(2,3) show ?thesis
      by (simp add: call IsFrozen_def LTE_total)
  qed
qed

lemma submitAll_frozen:
  assumes "IsFrozen cs" and "\<forall>call\<in>set calls. nonzeroHeight (snd (snd call))"
  shows "IsFrozen (submitAll ext cs calls) \<and>
         LTE (FrozenHeight (submitAll ext cs calls)) (FrozenHeight cs)"
  using assms
proof (induction calls arbitrary: cs)
  case Nil
  then show ?case by (simp add: submitAll_def LTE_refl)
next
  case (Cons call calls)
  have step: "IsFrozen (submit ext cs call)"
    "LTE (FrozenHeight (submit ext cs call)) (FrozenHeight cs)"
    using submit_frozen [of cs call ext] Cons.prems by simp_all
  have rest: "IsFrozen (submitAll ext (submit ext cs call) calls)"
    "LTE (FrozenHeight (submitAll ext (submit ext cs call) calls))
       (FrozenHeight (submit ext cs call))"
    using Cons.IH [OF step(1)] Cons.prems(2) by simp_all
  have unfold: "submitAll ext cs (call # calls) = submitAll ext (submit ext cs call) calls"
    by (simp add: submitAll_def)
  show ?case
    unfolding unfold using rest(1) LTE_trans [OF rest(2) step(2)] by simp
qed

section \<open>The freeze guard\<close>

text \<open>
  C3: for every client state whose frozen height is set and is at or before the height
  of the misbehaviour, the check rejects with the already-frozen error. The result is
  the same for every store, every context and all collaborators: no consensus state is
  read and no header is verified before the rejection.
\<close>

theorem already_frozen_rejected:
  assumes "IsFrozen cs" and "LTE (FrozenHeight cs) (GetHeight m)"
  shows "CheckMisbehaviourAndUpdateState ext cs ctx clientStore (TendermintMisbehaviour m) =
           (None, Some (Wrapf ErrInvalidMisbehaviour MsgAlreadyFrozen))"
  using assms by (simp add: CheckMisbehaviourAndUpdateState_def)

theorem already_frozen_rejected_witness:
  "IsFrozen frozen_before \<and>
   LTE (FrozenHeight frozen_before) (GetHeight example_misbehaviour) \<and>
   CheckMisbehaviourAndUpdateState example_ext frozen_before example_ctx Map.empty
     (TendermintMisbehaviour example_misbehaviour) =
   (None, Some (Wrapf ErrInvalidMisbehaviour MsgAlreadyFrozen))"
  using already_frozen_rejected [OF example_frozen_before, of example_ext example_ctx Map.empty]
    example_frozen_before
  by simp

section \<open>Errors and results\<close>

text \<open>
  C6: whenever the check returns an error, the client state it returns is nil, the
  error is that of one of the rejections of the function (wrong client type, already
  frozen, missing trusted consensus state of the first or second header, stale
  misbehaviour, failed verification of the first or second header), and the handler
  keeps the client state it had. The receiver is passed by value, so the caller's
  client state is the argument \<open>cs\<close> of the model, which no call changes.
\<close>

theorem error_atomicity:
  assumes "snd (CheckMisbehaviourAndUpdateState ext cs ctx clientStore mb) = Some e"
  shows "fst (CheckMisbehaviourAndUpdateState ext cs ctx clientStore mb) = None \<and>
         submit ext cs (ctx, clientStore, mb) = cs \<and>
         (e = Wrapf ErrInvalidClientType MsgExpectedType \<or>
          e = Wrapf ErrInvalidMisbehaviour MsgAlreadyFrozen \<or>
          (\<exists>err. e = Wrapf err MsgNoConsensusState1) \<or>
          (\<exists>err. e = Wrapf err MsgNoConsensusState2) \<or>
          e = Wrapf ErrInvalidMisbehaviour MsgStale \<or>
          (\<exists>err. e = Wrapf err MsgHeader1Failed) \<or>
          (\<exists>err. e = Wrapf err MsgHeader2Failed))"
proof -
  have nil: "fst (CheckMisbehaviourAndUpdateState ext cs ctx clientStore mb) = None"
    using check_cases [of ext cs ctx clientStore mb] assms by auto
  then have kept: "submit ext cs (ctx, clientStore, mb) = cs"
    by (cases "CheckMisbehaviourAndUpdateState ext cs ctx clientStore mb")
      (simp add: submit_def)
  have "e = Wrapf ErrInvalidClientType MsgExpectedType \<or>
      e = Wrapf ErrInvalidMisbehaviour MsgAlreadyFrozen \<or>
      (\<exists>err. e = Wrapf err MsgNoConsensusState1) \<or>
      (\<exists>err. e = Wrapf err MsgNoConsensusState2) \<or>
      e = Wrapf ErrInvalidMisbehaviour MsgStale \<or>
      (\<exists>err. e = Wrapf err MsgHeader1Failed) \<or>
      (\<exists>err. e = Wrapf err MsgHeader2Failed)"
    using assms
    by (auto simp add: CheckMisbehaviourAndUpdateState_def
        split: exported_Misbehaviour.splits sum.splits option.splits if_splits)
  with nil kept show ?thesis by simp
qed

theorem error_atomicity_witness:
  "snd (CheckMisbehaviourAndUpdateState example_ext frozen_before example_ctx example_store
          (TendermintMisbehaviour example_misbehaviour)) =
     Some (Wrapf ErrInvalidMisbehaviour MsgAlreadyFrozen) \<and>
   fst (CheckMisbehaviourAndUpdateState example_ext frozen_before example_ctx example_store
          (TendermintMisbehaviour example_misbehaviour)) = None \<and>
   submit example_ext frozen_before
     (example_ctx, example_store, TendermintMisbehaviour example_misbehaviour) = frozen_before"
proof -
  have failed: "snd (CheckMisbehaviourAndUpdateState example_ext frozen_before example_ctx
      example_store (TendermintMisbehaviour example_misbehaviour)) =
    Some (Wrapf ErrInvalidMisbehaviour MsgAlreadyFrozen)"
    using example_frozen_before by (simp add: CheckMisbehaviourAndUpdateState_def)
  from error_atomicity [OF failed] failed show ?thesis by simp
qed

text \<open>
  C8: whenever the check succeeds, the client state it returns is the input client
  state with the frozen height set to the height of the misbehaviour; every other
  field, and the remaining configuration, is unchanged.
\<close>

theorem success_frame:
  assumes "snd (CheckMisbehaviourAndUpdateState ext cs ctx clientStore mb) = None"
  shows "\<exists>m cs'. mb = TendermintMisbehaviour m \<and>
           fst (CheckMisbehaviourAndUpdateState ext cs ctx clientStore mb) = Some cs' \<and>
           cs' = cs\<lparr>FrozenHeight := GetHeight m\<rparr> \<and>
           FrozenHeight cs' = GetHeight m \<and>
           ChainId cs' = ChainId cs \<and> TrustLevel cs' = TrustLevel cs \<and>
           TrustingPeriod cs' = TrustingPeriod cs \<and>
           UnbondingPeriod cs' = UnbondingPeriod cs \<and>
           MaxClockDrift cs' = MaxClockDrift cs \<and>
           LatestHeight cs' = LatestHeight cs \<and>
           ClientState.more cs' = ClientState.more cs"
  using check_cases [of ext cs ctx clientStore mb] assms by auto

theorem success_frame_witness:
  "snd (CheckMisbehaviourAndUpdateState example_ext example_client example_ctx example_store
          (TendermintMisbehaviour example_misbehaviour)) = None \<and>
   (\<exists>cs'. fst (CheckMisbehaviourAndUpdateState example_ext example_client example_ctx
                example_store (TendermintMisbehaviour example_misbehaviour)) = Some cs' \<and>
      FrozenHeight cs' = GetHeight example_misbehaviour \<and>
      ChainId cs' = ChainId example_client \<and>
      LatestHeight cs' = LatestHeight example_client)"
proof -
  have succeeded: "snd (CheckMisbehaviourAndUpdateState example_ext example_client
      example_ctx example_store (TendermintMisbehaviour example_misbehaviour)) = None"
    by (simp add: example_success)
  from success_frame [OF succeeded] succeeded show ?thesis by auto
qed

section \<open>The staleness check\<close>

text \<open>
  C1, as amended: for every misbehaviour whose age has been computed (the freeze guard
  passed and both trusted consensus states were found) under consensus parameters with
  an evidence part, the check rejects with the stale-misbehaviour error exactly when
  the age in time exceeds the maximum OR the age in blocks exceeds the maximum; when
  neither does, it goes on to the verification of the headers.
\<close>

theorem stale_iff_either:
  assumes "\<not> (IsFrozen cs \<and> LTE (FrozenHeight cs) (GetHeight m))"
    and "clientStore (TrustedHeight (Header1 m)) = Some c1"
    and "clientStore (TrustedHeight (Header2 m)) = Some c2"
    and "ConsensusParams ctx = Some params"
    and "Evidence params = Some evidence"
  shows "(CheckMisbehaviourAndUpdateState ext cs ctx clientStore (TendermintMisbehaviour m) =
            (None, Some (Wrapf ErrInvalidMisbehaviour MsgStale)) \<longleftrightarrow>
          MaxAgeDuration evidence <s ageDuration ctx m \<or>
          MaxAgeNumBlocks evidence <s ageBlocks cs m) \<and>
         (\<not> MaxAgeDuration evidence <s ageDuration ctx m \<and>
          \<not> MaxAgeNumBlocks evidence <s ageBlocks cs m \<longrightarrow>
          CheckMisbehaviourAndUpdateState ext cs ctx clientStore (TendermintMisbehaviour m) =
            verifyHeadersAndFreeze ext cs ctx c1 c2 m)"
proof -
  have old: "tooOld (ConsensusParams ctx) (ageDuration ctx m) (ageBlocks cs m) \<longleftrightarrow>
      MaxAgeDuration evidence <s ageDuration ctx m \<or>
      MaxAgeNumBlocks evidence <s ageBlocks cs m"
    using assms(4,5) by (simp add: tooOld_def)
  show ?thesis
    unfolding check_past_guards [OF assms(1-3)] old
    using verify_not_stale [of ext cs ctx c1 c2 m None ErrInvalidMisbehaviour] by auto
qed

theorem stale_iff_either_witness:
  "\<not> (IsFrozen example_client \<and>
      LTE (FrozenHeight example_client) (GetHeight example_misbehaviour)) \<and>
   example_store (TrustedHeight (Header1 example_misbehaviour)) = Some example_consensus \<and>
   example_store (TrustedHeight (Header2 example_misbehaviour)) = Some example_consensus \<and>
   ConsensusParams late_ctx = Some \<lparr>Evidence = Some example_evidence\<rparr> \<and>
   MaxAgeDuration example_evidence <s ageDuration late_ctx example_misbehaviour \<and>
   CheckMisbehaviourAndUpdateState example_ext example_client late_ctx example_store
     (TendermintMisbehaviour example_misbehaviour) =
   (None, Some (Wrapf ErrInvalidMisbehaviour MsgStale))"
proof -
  have params: "ConsensusParams late_ctx = Some \<lparr>Evidence = Some example_evidence\<rparr>"
    "Evidence \<lparr>Evidence = Some example_evidence\<rparr> = Some example_evidence"
    by (simp_all add: example_defs)
  have old: "MaxAgeDuration example_evidence <s ageDuration late_ctx example_misbehaviour"
    by (simp add: example_defs height_defs age_defs)
  from stale_iff_either [OF example_guards(1,3,4) params, of example_ext] old
    example_guards params(1)
  show ?thesis by simp
qed

text \<open>
  C1 as stated fails: a misbehaviour whose age in time exceeds the maximum (200000
  seconds against 48 hours) and whose age in blocks does not (5 against 100000) is
  rejected as stale, although the conjunction of the two conditions is false.
\<close>

theorem stale_and_counterexample:
  "CheckMisbehaviourAndUpdateState example_ext example_client late_ctx example_store
     (TendermintMisbehaviour example_misbehaviour) =
   (None, Some (Wrapf ErrInvalidMisbehaviour MsgStale)) \<and>
   \<not> (MaxAgeDuration example_evidence <s ageDuration late_ctx example_misbehaviour \<and>
      MaxAgeNumBlocks example_evidence <s ageBlocks example_client example_misbehaviour)"
  by (simp add: example_late) (simp add: example_defs height_defs age_defs)

text \<open>
  C9: if the consensus parameters of the context, or their evidence part, are nil, no
  misbehaviour is rejected as stale, whatever its age in time and in blocks: once the
  freeze guard has passed and both trusted consensus states are found, the check goes
  directly to the verification of the headers.
\<close>

theorem nil_params_skip_staleness:
  assumes "ConsensusParams ctx = None \<or>
           (\<exists>params. ConsensusParams ctx = Some params \<and> Evidence params = None)"
  shows "snd (CheckMisbehaviourAndUpdateState ext cs ctx clientStore mb) \<noteq>
           Some (Wrapf ErrInvalidMisbehaviour MsgStale) \<and>
         (\<forall>m c1 c2. mb = TendermintMisbehaviour m \<and>
            \<not> (IsFrozen cs \<and> LTE (FrozenHeight cs) (GetHeight m)) \<and>
            clientStore (TrustedHeight (Header1 m)) = Some c1 \<and>
            clientStore (TrustedHeight (Header2 m)) = Some c2 \<longrightarrow>
            CheckMisbehaviourAndUpdateState ext cs ctx clientStore mb =
              verifyHeadersAndFreeze ext cs ctx c1 c2 m)"
proof -
  have young: "\<not> tooOld (ConsensusParams ctx) d b" for d b
    using assms by (auto simp add: tooOld_def)
  have "snd (CheckMisbehaviourAndUpdateState ext cs ctx clientStore mb) \<noteq>
      Some (Wrapf ErrInvalidMisbehaviour MsgStale)"
    by (simp add: CheckMisbehaviourAndUpdateState_def young
        split: exported_Misbehaviour.splits sum.splits option.splits)
  moreover have "CheckMisbehaviourAndUpdateState ext cs ctx clientStore mb =
      verifyHeadersAndFreeze ext cs ctx c1 c2 m"
    if "mb = TendermintMisbehaviour m"
      and "\<not> (IsFrozen cs \<and> LTE (FrozenHeight cs) (GetHeight m))"
      and "clientStore (TrustedHeight (Header1 m)) = Some c1"
      and "clientStore (TrustedHeight (Header2 m)) = Some c2" for m c1 c2
    using check_past_guards [OF that(2-4), of ext ctx] that(1) by (simp add: young)
  ultimately show ?thesis by blast
qed

theorem nil_params_skip_staleness_witness:
  "ConsensusParams late_ctx_no_params = None \<and>
   MaxAgeDuration example_evidence <s ageDuration late_ctx_no_params example_misbehaviour \<and>
   CheckMisbehaviourAndUpdateState example_ext example_client late_ctx_no_params
     example_store (TendermintMisbehaviour example_misbehaviour) =
   (Some (example_client\<lparr>FrozenHeight := \<lparr>VersionNumber = 1, VersionHeight = 95\<rparr>\<rparr>), None)"
proof -
  have nil: "ConsensusParams late_ctx_no_params = None"
    by (simp add: example_defs)
  have old: "MaxAgeDuration example_evidence <s
      ageDuration late_ctx_no_params example_misbehaviour"
    by (simp add: example_defs height_defs age_defs)
  from nil_params_skip_staleness [OF disjI1 [OF nil], of example_ext example_client
      example_store "TendermintMisbehaviour example_misbehaviour"]
  have "CheckMisbehaviourAndUpdateState example_ext example_client late_ctx_no_params
      example_store (TendermintMisbehaviour example_misbehaviour) =
    verifyHeadersAndFreeze example_ext example_client late_ctx_no_params example_consensus
      example_consensus example_misbehaviour"
    using example_guards by blast
  with nil old show ?thesis
    by (simp add: example_verified)
qed

section \<open>The age in blocks\<close>

text \<open>
  C4: if the version number of the misbehaviour equals that of the client's latest
  height, the age in blocks is the latest version height minus the version height of
  the misbehaviour (the difference of the two integers whenever the misbehaviour is not
  above the latest height and the difference fits in an \<^verbatim>\<open>int64\<close>); otherwise it is
  0, whatever the heights are, so that under a non-negative maximum number of blocks
  the misbehaviour is stale exactly when its age in time exceeds the maximum.
\<close>

theorem age_blocks_by_epoch:
  "ageBlocks cs m =
     (if VersionNumber (GetHeight m) = VersionNumber (LatestHeight cs)
      then VersionHeight (LatestHeight cs) - VersionHeight (GetHeight m) else 0) \<and>
   (VersionNumber (GetHeight m) = VersionNumber (LatestHeight cs) \<and>
    VersionHeight (GetHeight m) \<le> VersionHeight (LatestHeight cs) \<and>
    uint (VersionHeight (LatestHeight cs)) - uint (VersionHeight (GetHeight m)) < 2 ^ 63 \<longrightarrow>
    sint (ageBlocks cs m) =
      uint (VersionHeight (LatestHeight cs)) - uint (VersionHeight (GetHeight m))) \<and>
   (VersionNumber (GetHeight m) \<noteq> VersionNumber (LatestHeight cs) \<longrightarrow>
    tooOld consensusParams d (ageBlocks cs m) = tooOld consensusParams d 0) \<and>
   (VersionNumber (GetHeight m) \<noteq> VersionNumber (LatestHeight cs) \<and>
    \<not> (IsFrozen cs \<and> LTE (FrozenHeight cs) (GetHeight m)) \<and>
    clientStore (TrustedHeight (Header1 m)) = Some c1 \<and>
    clientStore (TrustedHeight (Header2 m)) = Some c2 \<and>
    ConsensusParams ctx = Some params \<and> Evidence params = Some evidence \<and>
    0 \<le>s MaxAgeNumBlocks evidence \<longrightarrow>
    (CheckMisbehaviourAndUpdateState ext cs ctx clientStore (TendermintMisbehaviour m) =
       (None, Some (Wrapf ErrInvalidMisbehaviour MsgStale)) \<longleftrightarrow>
     MaxAgeDuration evidence <s ageDuration ctx m))"
proof -
  have blocks: "ageBlocks cs m =
     (if VersionNumber (GetHeight m) = VersionNumber (LatestHeight cs)
      then VersionHeight (LatestHeight cs) - VersionHeight (GetHeight m) else 0)"
    by (simp add: ageBlocks_def GetEpochNumber_def GetEpochHeight_def)
  have exact: "sint (ageBlocks cs m) =
      uint (VersionHeight (LatestHeight cs)) - uint (VersionHeight (GetHeight m))"
    if "VersionNumber (GetHeight m) = VersionNumber (LatestHeight cs)"
      and "VersionHeight (GetHeight m) \<le> VersionHeight (LatestHeight cs)"
      and "uint (VersionHeight (LatestHeight cs)) - uint (VersionHeight (GetHeight m)) < 2 ^ 63"
  proof -
    have "0 \<le> uint (VersionHeight (LatestHeight cs)) - uint (VersionHeight (GetHeight m))"
      using that(2) by (simp add: word_le_def)
    with that(1,3) show ?thesis
      by (simp add: blocks sint_minus_64)
  qed
  have off: "tooOld consensusParams d (ageBlocks cs m) = tooOld consensusParams d 0"
    if "VersionNumber (GetHeight m) \<noteq> VersionNumber (LatestHeight cs)"
    using that by (simp add: blocks)
  have only: "CheckMisbehaviourAndUpdateState ext cs ctx clientStore (TendermintMisbehaviour m) =
       (None, Some (Wrapf ErrInvalidMisbehaviour MsgStale)) \<longleftrightarrow>
     MaxAgeDuration evidence <s ageDuration ctx m"
    if "VersionNumber (GetHeight m) \<noteq> VersionNumber (LatestHeight cs)"
      and "\<not> (IsFrozen cs \<and> LTE (FrozenHeight cs) (GetHeight m))"
      and "clientStore (TrustedHeight (Header1 m)) = Some c1"
      and "clientStore (TrustedHeight (Header2 m)) = Some c2"
      and "ConsensusParams ctx = Some params" and "Evidence params = Some evidence"
      and "0 \<le>s MaxAgeNumBlocks evidence"
  proof -
    have "\<not> MaxAgeNumBlocks evidence <s 0"
      using that(7) by (simp add: word_sle_eq word_sless_alt)
    then have "tooOld (ConsensusParams ctx) (ageDuration ctx m) (ageBlocks cs m) \<longleftrightarrow>
        MaxAgeDuration evidence <s ageDuration ctx m"
      using that(1,5,6) by (simp add: blocks tooOld_def)
    then show ?thesis
      unfolding check_past_guards [OF that(2-4)]
      using verify_not_stale [of ext cs ctx c1 c2 m None ErrInvalidMisbehaviour] by auto
  qed
  show ?thesis
    using blocks exact off only by blast
qed

theorem age_blocks_by_epoch_witness:
  "VersionNumber (GetHeight example_misbehaviour) = VersionNumber (LatestHeight example_client) \<and>
   VersionHeight (GetHeight example_misbehaviour) \<le> VersionHeight (LatestHeight example_client) \<and>
   sint (ageBlocks example_client example_misbehaviour) = 5 \<and>
   VersionNumber (GetHeight upgraded_misbehaviour) \<noteq> VersionNumber (LatestHeight example_client) \<and>
   0 \<le>s MaxAgeNumBlocks example_evidence \<and>
   ageBlocks example_client upgraded_misbehaviour = 0 \<and>
   \<not> MaxAgeDuration example_evidence <s ageDuration example_ctx upgraded_misbehaviour \<and>
   CheckMisbehaviourAndUpdateState example_ext example_client example_ctx example_store
     (TendermintMisbehaviour upgraded_misbehaviour) \<noteq>
   (None, Some (Wrapf ErrInvalidMisbehaviour MsgStale))"
proof -
  have same: "VersionNumber (GetHeight example_misbehaviour) =
      VersionNumber (LatestHeight example_client)"
    "VersionHeight (GetHeight example_misbehaviour) \<le> VersionHeight (LatestHeight example_client)"
    "uint (VersionHeight (LatestHeight example_client)) -
       uint (VersionHeight (GetHeight example_misbehaviour)) < 2 ^ 63"
    by (simp_all add: example_defs height_defs)
  have five: "uint (VersionHeight (LatestHeight example_client)) -
       uint (VersionHeight (GetHeight example_misbehaviour)) = 5"
    by (simp add: example_defs height_defs)
  have other: "VersionNumber (GetHeight upgraded_misbehaviour) \<noteq>
      VersionNumber (LatestHeight example_client)"
    "\<not> (IsFrozen example_client \<and>
        LTE (FrozenHeight example_client) (GetHeight upgraded_misbehaviour))"
    "example_store (TrustedHeight (Header1 upgraded_misbehaviour)) = Some example_consensus"
    "example_store (TrustedHeight (Header2 upgraded_misbehaviour)) = Some example_consensus"
    "ConsensusParams example_ctx = Some \<lparr>Evidence = Some example_evidence\<rparr>"
    "Evidence \<lparr>Evidence = Some example_evidence\<rparr> = Some example_evidence"
    "0 \<le>s MaxAgeNumBlocks example_evidence"
    by (simp_all add: example_defs height_defs word_sle_eq)
  have young: "\<not> MaxAgeDuration example_evidence <s
      ageDuration example_ctx upgraded_misbehaviour"
    by (simp add: example_defs height_defs age_defs)
  from age_blocks_by_epoch [of example_client example_misbehaviour] same
  have "sint (ageBlocks example_client example_misbehaviour) =
      uint (VersionHeight (LatestHeight example_client)) -
      uint (VersionHeight (GetHeight example_misbehaviour))"
    by blast
  then have "sint (ageBlocks example_client example_misbehaviour) = 5"
    unfolding five .
  moreover from age_blocks_by_epoch [of example_client upgraded_misbehaviour undefined
      undefined example_store example_consensus example_consensus example_ctx
      "\<lparr>Evidence = Some example_evidence\<rparr>" example_evidence example_ext]
  have "ageBlocks example_client upgraded_misbehaviour = 0 \<and>
    CheckMisbehaviourAndUpdateState example_ext example_client example_ctx example_store
      (TendermintMisbehaviour upgraded_misbehaviour) \<noteq>
    (None, Some (Wrapf ErrInvalidMisbehaviour MsgStale))"
    using other young by auto
  ultimately show ?thesis
    using same(1,2) other(1,7) young by simp
qed

text \<open>
  C10, as amended: for every misbehaviour of the client's version whose version height
  is strictly greater than the client's latest version height, the unsigned 64-bit
  subtraction wraps (its value is the difference plus \<open>2 ^ 64\<close>), and the conversion to
  \<^verbatim>\<open>int64\<close> reads the result as two's complement: the age in blocks is the negative
  difference of the two heights whenever the misbehaviour is at most \<open>2 ^ 63\<close> above
  the latest height, and that difference plus \<open>2 ^ 64\<close>, a positive value, only beyond
  that. This value is the one compared with the maximum number of blocks.
\<close>

theorem age_blocks_wraps:
  assumes "GetEpochNumber (GetHeight m) = VersionNumber (LatestHeight cs)"
    and "VersionHeight (LatestHeight cs) < GetEpochHeight (GetHeight m)"
  shows "uint (VersionHeight (LatestHeight cs) - GetEpochHeight (GetHeight m)) =
           uint (VersionHeight (LatestHeight cs)) - uint (GetEpochHeight (GetHeight m)) + 2 ^ 64 \<and>
         sint (ageBlocks cs m) =
           (if uint (GetEpochHeight (GetHeight m)) - uint (VersionHeight (LatestHeight cs)) \<le> 2 ^ 63
            then uint (VersionHeight (LatestHeight cs)) - uint (GetEpochHeight (GetHeight m))
            else uint (VersionHeight (LatestHeight cs)) - uint (GetEpochHeight (GetHeight m))
                   + 2 ^ 64)"
proof -
  have less: "uint (VersionHeight (LatestHeight cs)) < uint (GetEpochHeight (GetHeight m))"
    using assms(2) by (simp add: word_less_def)
  have "uint (VersionHeight (LatestHeight cs) - GetEpochHeight (GetHeight m)) =
      uint (VersionHeight (LatestHeight cs)) - uint (GetEpochHeight (GetHeight m)) + 2 ^ 64"
    using less by (simp add: uint_sub_if')
  moreover have "sint (ageBlocks cs m) =
      (if uint (GetEpochHeight (GetHeight m)) - uint (VersionHeight (LatestHeight cs)) \<le> 2 ^ 63
       then uint (VersionHeight (LatestHeight cs)) - uint (GetEpochHeight (GetHeight m))
       else uint (VersionHeight (LatestHeight cs)) - uint (GetEpochHeight (GetHeight m))
              + 2 ^ 64)"
    using less assms(1) by (auto simp add: ageBlocks_def sint_minus_64)
  ultimately show ?thesis by simp
qed

theorem age_blocks_wraps_witness:
  "GetEpochNumber (GetHeight ahead_misbehaviour) = VersionNumber (LatestHeight example_client) \<and>
   VersionHeight (LatestHeight example_client) < GetEpochHeight (GetHeight ahead_misbehaviour) \<and>
   uint (VersionHeight (LatestHeight example_client) -
         GetEpochHeight (GetHeight ahead_misbehaviour)) = 2 ^ 64 - 1 \<and>
   sint (ageBlocks example_client ahead_misbehaviour) = - 1"
proof -
  have ahead: "GetEpochNumber (GetHeight ahead_misbehaviour) =
      VersionNumber (LatestHeight example_client)"
    "VersionHeight (LatestHeight example_client) < GetEpochHeight (GetHeight ahead_misbehaviour)"
    by (simp_all add: example_defs height_defs)
  have heights: "uint (VersionHeight (LatestHeight example_client)) = 100"
    "uint (GetEpochHeight (GetHeight ahead_misbehaviour)) = 101"
    by (simp_all add: example_defs height_defs)
  from age_blocks_wraps [OF ahead] ahead show ?thesis
    unfolding heights by simp
qed

text \<open>
  C10 as stated fails: the misbehaviour at height (1, 101) is one block above the
  latest height (1, 100) of the client, and its age in blocks, read as an \<^verbatim>\<open>int64\<close>,
  is the negative difference \<open>100 - 101 = -1\<close> of the two heights, not a large
  positive value.
\<close>

theorem age_blocks_negative_counterexample:
  "GetEpochNumber (GetHeight ahead_misbehaviour) = VersionNumber (LatestHeight example_client) \<and>
   VersionHeight (LatestHeight example_client) < GetEpochHeight (GetHeight ahead_misbehaviour) \<and>
   sint (ageBlocks example_client ahead_misbehaviour) =
     uint (VersionHeight (LatestHeight example_client)) -
     uint (GetEpochHeight (GetHeight ahead_misbehaviour)) \<and>
   sint (ageBlocks example_client ahead_misbehaviour) < 0"
  by (simp add: example_defs height_defs ageBlocks_def)

section \<open>Results of the per-header check\<close>

text \<open>
  C5: for every header whose trusted validator set and commit decode and whose trusted
  fields match the consensus state, if the current time minus the timestamp of the
  trusted consensus state is at least the unbonding period of the client, the
  per-header check fails with the unbonding-period-expired error, whatever the
  verification of the commit would answer.
\<close>

theorem unbonding_period_expired:
  assumes "ValidatorSetFromProto ext (TrustedValidators header) = Inr tmTrustedValset"
    and "CommitFromProto ext (Commit header) = Inr tmCommit"
    and "checkTrustedHeader ext header consState = None"
    and "sint (UnbondingPeriod clientState) \<le> currentTimestamp - Timestamp consState"
  shows "checkMisbehaviourHeader (ext\<lparr>VerifyCommitLightTrusting := verify\<rparr>) clientState
           consState header currentTimestamp =
         Some (Wrapf ErrUnbondingPeriodExpired MsgUnbondingExpired)"
  using assms(1-3) Sub_ge [OF assms(4)]
  by (simp add: checkMisbehaviourHeader_def)

theorem unbonding_period_expired_witness:
  "sint (UnbondingPeriod example_client) \<le> 1814400000000000 - Timestamp example_consensus \<and>
   checkMisbehaviourHeader
     (example_ext\<lparr>VerifyCommitLightTrusting := (\<lambda>power chainID signed level. None)\<rparr>)
     example_client example_consensus example_header 1814400000000000 =
   Some (Wrapf ErrUnbondingPeriodExpired MsgUnbondingExpired)"
  using unbonding_period_expired [of example_ext example_header 100 70 example_consensus
      example_client 1814400000000000 "\<lambda>power chainID signed level. None"]
  by (simp add: example_defs)



section \<open>The frozen height along a sequence of checks\<close>

text \<open>
  C2, as amended: for every sequence of checks of misbehaviours of non-zero height on a
  client whose frozen height is set to \<open>h\<close>, the client stays frozen at a height at or
  before \<open>h\<close>; any subsequent check whose misbehaviour height \<open>h'\<close> satisfies \<open>h \<le> h'\<close>
  fails with the already-frozen error; and a subsequent check that succeeds has a
  misbehaviour height strictly before the frozen height of the client and returns a
  client state frozen at that height, so no call returns a frozen height at or after
  the one already set.
\<close>

theorem freeze_guard_direction:
  assumes "IsFrozen cs"
    and "\<forall>call\<in>set calls. nonzeroHeight (snd (snd call))"
    and "cs' = submitAll ext cs calls"
  shows "IsFrozen cs' \<and> LTE (FrozenHeight cs') (FrozenHeight cs) \<and>
         (\<forall>m ctx clientStore. LTE (FrozenHeight cs) (GetHeight m) \<longrightarrow>
            CheckMisbehaviourAndUpdateState ext cs' ctx clientStore (TendermintMisbehaviour m) =
              (None, Some (Wrapf ErrInvalidMisbehaviour MsgAlreadyFrozen))) \<and>
         (\<forall>mb ctx clientStore r.
            CheckMisbehaviourAndUpdateState ext cs' ctx clientStore mb = (Some r, None) \<longrightarrow>
            (\<exists>m. mb = TendermintMisbehaviour m \<and> FrozenHeight r = GetHeight m \<and>
                 \<not> LTE (FrozenHeight cs') (GetHeight m)))"
proof -
  have frozen: "IsFrozen cs'" and below: "LTE (FrozenHeight cs') (FrozenHeight cs)"
    using submitAll_frozen [OF assms(1,2), of ext] assms(3) by simp_all
  have "CheckMisbehaviourAndUpdateState ext cs' ctx clientStore (TendermintMisbehaviour m) =
      (None, Some (Wrapf ErrInvalidMisbehaviour MsgAlreadyFrozen))"
    if "LTE (FrozenHeight cs) (GetHeight m)" for m ctx clientStore
    using frozen LTE_trans [OF below that]
    by (simp add: CheckMisbehaviourAndUpdateState_def)
  moreover have "\<exists>m. mb = TendermintMisbehaviour m \<and> FrozenHeight r = GetHeight m \<and>
      \<not> LTE (FrozenHeight cs') (GetHeight m)"
    if "CheckMisbehaviourAndUpdateState ext cs' ctx clientStore mb = (Some r, None)"
    for mb ctx clientStore r
    using check_cases [of ext cs' ctx clientStore mb] that frozen by auto
  ultimately show ?thesis
    using frozen below by blast
qed

theorem freeze_guard_direction_witness:
  "IsFrozen frozen_after \<and>
   nonzeroHeight (TendermintMisbehaviour example_misbehaviour) \<and>
   LTE (FrozenHeight frozen_after) (GetHeight ahead_misbehaviour) \<and>
   FrozenHeight (submitAll example_ext frozen_after
     [(example_ctx, example_store, TendermintMisbehaviour example_misbehaviour)]) =
     \<lparr>VersionNumber = 1, VersionHeight = 95\<rparr> \<and>
   CheckMisbehaviourAndUpdateState example_ext
     (submitAll example_ext frozen_after
        [(example_ctx, example_store, TendermintMisbehaviour example_misbehaviour)])
     example_ctx example_store (TendermintMisbehaviour ahead_misbehaviour) =
   (None, Some (Wrapf ErrInvalidMisbehaviour MsgAlreadyFrozen))"
proof -
  have frozen: "IsFrozen frozen_after"
    by (simp add: example_defs height_defs)
  have calls: "\<forall>call\<in>set [(example_ctx, example_store,
      TendermintMisbehaviour example_misbehaviour)]. nonzeroHeight (snd (snd call))"
    by (simp add: nonzeroHeight_def example_defs height_defs)
  have ahead: "LTE (FrozenHeight frozen_after) (GetHeight ahead_misbehaviour)"
    by (simp add: example_defs height_defs)
  have after: "FrozenHeight (submitAll example_ext frozen_after
      [(example_ctx, example_store, TendermintMisbehaviour example_misbehaviour)]) =
    \<lparr>VersionNumber = 1, VersionHeight = 95\<rparr>"
    by (simp add: submitAll_def submit_def example_refreeze)
  from freeze_guard_direction [OF frozen calls refl, of example_ext] ahead
  have "CheckMisbehaviourAndUpdateState example_ext
      (submitAll example_ext frozen_after
         [(example_ctx, example_store, TendermintMisbehaviour example_misbehaviour)])
      example_ctx example_store (TendermintMisbehaviour ahead_misbehaviour) =
    (None, Some (Wrapf ErrInvalidMisbehaviour MsgAlreadyFrozen))"
    by blast
  moreover have "nonzeroHeight (TendermintMisbehaviour example_misbehaviour)"
    using calls by simp
  ultimately show ?thesis
    using frozen ahead after by blast
qed

text \<open>
  C2 as stated fails: the client is frozen at \<open>h\<close> = (1, 99) and the misbehaviour is at
  \<open>h'\<close> = (1, 95), so \<open>h' \<le> h\<close>; the check does not fail, and it returns a client state
  whose frozen height (1, 95) is earlier than the one already set.
\<close>

theorem refreeze_earlier_counterexample:
  "IsFrozen frozen_after \<and>
   FrozenHeight frozen_after = \<lparr>VersionNumber = 1, VersionHeight = 99\<rparr> \<and>
   GetHeight example_misbehaviour = \<lparr>VersionNumber = 1, VersionHeight = 95\<rparr> \<and>
   LTE (GetHeight example_misbehaviour) (FrozenHeight frozen_after) \<and>
   \<not> LTE (FrozenHeight frozen_after) (GetHeight example_misbehaviour) \<and>
   CheckMisbehaviourAndUpdateState example_ext frozen_after example_ctx example_store
     (TendermintMisbehaviour example_misbehaviour) =
   (Some (frozen_after\<lparr>FrozenHeight := \<lparr>VersionNumber = 1, VersionHeight = 95\<rparr>\<rparr>), None)"
  by (simp add: example_refreeze) (simp add: example_defs height_defs)

end
